theory Spec2Isabelle
  imports Main "HOL-Library.AList"
begin

section \<open>JavaScript values\<close>

text \<open>
  The logger is dynamically typed: settings objects, level names and log arguments are
  arbitrary JavaScript values. The fragment of the value space the library can tell apart
  is modelled by \<open>jsval\<close>. Numbers are the integers; strings are lists of characters
  (exact for ASCII text); a function value is opaque and carries only its name, and the
  model never calls a function supplied by the caller (an object bringing its own
  callable \<open>toLowerCase\<close> or \<open>toJSON\<close> is outside the modelled inputs). An object is
  the list of its own enumerable properties in enumeration order; the first binding of a
  key is the property's value.

  \<open>fmt\<close> describes a winston format object as \<open>getFormat\<close> assembles it. Such an
  object occurs among the options of a transport only; elsewhere it counts as an object
  without properties of its own.
\<close>

datatype fmt = Splat | Colorize | Timestamp | PrintfPlain | PrintfStamped | Combine "fmt list"

datatype jsval =
    JUndefined
  | JNull
  | JBool bool
  | JNum int
  | JBigInt int
  | JStr string
  | JFun string
  | JFormat fmt
  | JObj "(string \<times> jsval) list"

datatype jserror = Error string | TypeError string

text \<open>Truthiness, as used by \<open>if (x)\<close>, \<open>x || y\<close> and \<open>x ? a : b\<close>.\<close>

fun truthy :: "jsval \<Rightarrow> bool" where
  "truthy JUndefined = False"
| "truthy JNull = False"
| "truthy (JBool b) = b"
| "truthy (JNum n) = (n \<noteq> 0)"
| "truthy (JBigInt n) = (n \<noteq> 0)"
| "truthy (JStr s) = (s \<noteq> [])"
| "truthy (JFun f) = True"
| "truthy (JFormat f) = True"
| "truthy (JObj kvs) = True"

definition jsOr :: "jsval \<Rightarrow> jsval \<Rightarrow> jsval" where
  "jsOr a b = (if truthy a then a else b)"

text \<open>
  Property read \<open>v.k\<close> for the fixed property names the library reads (none of them is a
  member of a built-in prototype, except \<open>name\<close> on a function). The receiver is never
  \<open>undefined\<close> or \<open>null\<close> where the library reads a property: every read is behind a
  truthiness test of the receiver.
\<close>

fun getProp :: "jsval \<Rightarrow> string \<Rightarrow> jsval" where
  "getProp (JObj kvs) k = (case map_of kvs k of Some v \<Rightarrow> v | None \<Rightarrow> JUndefined)"
| "getProp (JFun f) k = (if k = ''name'' then JStr f else JUndefined)"
| "getProp v k = JUndefined"

definition digit :: "nat \<Rightarrow> char" where
  "digit n = ''0123456789'' ! n"

text \<open>Decimal rendering of a non-negative integer (\<open>%d\<close> of \<open>util.format\<close>, index keys).\<close>

fun decimal :: "nat \<Rightarrow> string" where
  "decimal n = (if n < 10 then [digit n] else decimal (n div 10) @ [digit (n mod 10)])"

declare decimal.simps [simp del]

text \<open>\<open>Object.keys(v)\<close> paired with \<open>v[key]\<close>.\<close>

fun ownEntries :: "jsval \<Rightarrow> (string \<times> jsval) list" where
  "ownEntries (JObj kvs) = map (\<lambda>k. (k, getProp (JObj kvs) k)) (map fst kvs)"
| "ownEntries (JStr s) = map (\<lambda>i. (decimal i, JStr [s ! i])) [0..<length s]"
| "ownEntries v = []"

text \<open>
  \<open>String.prototype.toLowerCase\<close> on the letters A to Z; every other character is kept.
  The names the library compares against are made of ASCII letters other than k, and no
  character outside ASCII has a lower case made of such letters only, so the outcome of
  the comparisons is that of the full Unicode mapping.
\<close>

definition lowerChar :: "char \<Rightarrow> char" where
  "lowerChar c =
     (case map_of (zip ''ABCDEFGHIJKLMNOPQRSTUVWXYZ'' ''abcdefghijklmnopqrstuvwxyz'') c of
        Some d \<Rightarrow> d
      | None \<Rightarrow> c)"

definition toLowerCase :: "string \<Rightarrow> string" where
  "toLowerCase s = map lowerChar s"

section \<open>Constants of the entry point\<close>

definition DEFAULT_LOGLEVEL :: string where "DEFAULT_LOGLEVEL = ''info''"
definition DEFAULT_LOGFILE :: string where "DEFAULT_LOGFILE = ''logging.log''"
definition DEFAULT_LOGGER_NAME :: string where "DEFAULT_LOGGER_NAME = ''logger''"

definition NR_FATAL :: int where "NR_FATAL = 0"
definition NR_ERROR :: int where "NR_ERROR = 10"
definition NR_WARN :: int where "NR_WARN = 20"
definition NR_INFO :: int where "NR_INFO = 30"
definition NR_DEBUG :: int where "NR_DEBUG = 40"
definition NR_TRACE :: int where "NR_TRACE = 50"

definition SN_NONE :: int where "SN_NONE = 0"
definition SN_SIMPLE :: int where "SN_SIMPLE = 1"
definition SN_FULL :: int where "SN_FULL = 2"

definition DEFAULT_SETTINGS :: jsval where
  "DEFAULT_SETTINGS = JObj
     [(''name'', JStr DEFAULT_LOGGER_NAME),
      (''level'', JStr DEFAULT_LOGLEVEL),
      (''showName'', JBool True),
      (''showPid'', JBool False),
      (''console'', JObj [(''timestamp'', JFun ''getUTCTimestamp'')]),
      (''colorize'', JStr ''true'')]"

definition CUSTOM_DEFS_levels :: "(string \<times> int) list" where
  "CUSTOM_DEFS_levels =
     [(''fatal'', NR_FATAL), (''error'', NR_ERROR), (''warn'', NR_WARN),
      (''info'', NR_INFO), (''debug'', NR_DEBUG), (''trace'', NR_TRACE)]"

section \<open>Level names and ranks\<close>

text \<open>The \<open>switch\<close> of \<open>numLevel\<close>, on the lower-cased string.\<close>

definition numLevelSwitch :: "string \<Rightarrow> int" where
  "numLevelSwitch s =
     (if s = ''fatal'' then NR_FATAL
      else if s = ''error'' then NR_ERROR
      else if s = ''warn'' then NR_WARN
      else if s = ''info'' then NR_INFO
      else if s = ''debug'' then NR_DEBUG
      else if s = ''trace'' then NR_TRACE
      else NR_TRACE)"

text \<open>
  \<open>numLevel(value)\<close> starts with \<open>value.toLowerCase()\<close>: reading the method of
  \<open>undefined\<close> or \<open>null\<close> throws a TypeError, and so does calling it on a value that has
  no such method.
\<close>

fun numLevel :: "jsval \<Rightarrow> jserror + int" where
  "numLevel (JStr s) = Inr (numLevelSwitch (toLowerCase s))"
| "numLevel JUndefined = Inl (TypeError ''Cannot read properties of undefined (reading toLowerCase)'')"
| "numLevel JNull = Inl (TypeError ''Cannot read properties of null (reading toLowerCase)'')"
| "numLevel v = Inl (TypeError ''value.toLowerCase is not a function'')"

definition strLevel :: "int \<Rightarrow> string" where
  "strLevel v =
     (if v = NR_FATAL then ''fatal''
      else if v = NR_ERROR then ''error''
      else if v = NR_WARN then ''warn''
      else if v = NR_INFO then ''info''
      else if v = NR_DEBUG then ''debug''
      else if v = NR_TRACE then ''trace''
      else ''trace'')"

section \<open>Show-name setting\<close>

definition getShowName :: "jsval \<Rightarrow> int" where
  "getShowName v =
     (case v of
        JStr s \<Rightarrow>
          (let l = toLowerCase s in
           if l = ''full'' then SN_FULL
           else if l = ''none'' \<or> l = ''false'' then SN_NONE
           else SN_SIMPLE)
      | _ \<Rightarrow> (if truthy v then SN_SIMPLE else SN_NONE))"

section \<open>The platform and the winston backend\<close>

text \<open>
  winston, \<open>util\<close>, \<open>JSON\<close>, \<open>os\<close> and \<open>process\<close> are not part of the library. What the
  library needs from them is collected in \<open>env\<close>:
  \<^item> \<open>ctor t\<close>: the outcome of constructing transport \<open>t\<close> with \<open>new\<close>: \<open>None\<close> when the
    constructor returns, \<open>Some e\<close> when it throws \<open>e\<close>;
  \<^item> \<open>jsonText v\<close>: the text \<open>JSON.stringify\<close> produces for a value it can serialise;
  \<open>inspectS v\<close>: what \<open>%s\<close> of \<open>util.format\<close> renders for a value that is not a string;
  \<^item> \<open>logCall w m args\<close>: the outcome of the call \<open>log.m.apply(null, args)\<close> on the
    winston logger \<open>w\<close>: \<open>None\<close> when it returns, \<open>Some e\<close> when it throws \<open>e\<close> (a
    winston logger that has been ended throws on a further write);
  \<^item> \<open>pid\<close> and \<open>hostname\<close>: \<open>process.pid\<close> and \<open>os.hostname()\<close>;
  \<^item> \<open>numericString s\<close>: whether the string \<open>s\<close> converts to a number other than NaN.
\<close>

datatype transport = Console jsval | File jsval | MappedSyslog jsval

text \<open>
  The winston logger as far as the library sets it up: its transports, the custom levels,
  \<open>emitErrs\<close> (\<open>None\<close> when the library leaves it at winston's default), and whether
  \<open>end()\<close> has been called on it.
\<close>

record winston_logger =
  transports :: "transport list"
  levels :: "(string \<times> int) list"
  emitErrs :: "bool option"
  ended :: bool

record env =
  ctor :: "transport \<Rightarrow> jserror option"
  logCall :: "winston_logger \<Rightarrow> string \<Rightarrow> jsval list \<Rightarrow> jserror option"
  jsonText :: "jsval \<Rightarrow> string"
  inspectS :: "jsval \<Rightarrow> string"
  pid :: nat
  hostname :: string
  numericString :: "string \<Rightarrow> bool"

text \<open>\<open>new T(opts)\<close>: the transport, or the error its constructor throws.\<close>

definition construct :: "env \<Rightarrow> transport \<Rightarrow> jserror + transport" where
  "construct E t = (case ctor E t of Some e \<Rightarrow> Inl e | None \<Rightarrow> Inr t)"

text \<open>The options a transport was built from, and its \<open>level\<close> option.\<close>

fun transportOpts :: "transport \<Rightarrow> jsval" where
  "transportOpts (Console opts) = opts"
| "transportOpts (File opts) = opts"
| "transportOpts (MappedSyslog opts) = opts"

definition transportLevel :: "transport \<Rightarrow> jsval" where
  "transportLevel t = getProp (transportOpts t) ''level''"

text \<open>\<open>%s\<close> of \<open>util.format\<close>: a string is inserted as it is.\<close>

definition formatS :: "env \<Rightarrow> jsval \<Rightarrow> string" where
  "formatS E v = (case v of JStr s \<Rightarrow> s | _ \<Rightarrow> inspectS E v)"

text \<open>
  \<open>JSON.stringify\<close> throws a TypeError on a BigInt anywhere inside the value (the values
  of \<open>jsval\<close> are trees, so the other failure, a circular structure, cannot be written
  down here). Of an object it visits the properties, that is, the first binding of every
  key.
\<close>

fun firstBindings :: "(string \<times> 'a) list \<Rightarrow> (string \<times> 'a) list" where
  "firstBindings [] = []"
| "firstBindings (p # ps) = p # filter (\<lambda>q. fst q \<noteq> fst p) (firstBindings ps)"

function (sequential) hasBigInt :: "jsval \<Rightarrow> bool" where
  "hasBigInt (JBigInt n) = True"
| "hasBigInt (JObj kvs) = list_ex (\<lambda>p. hasBigInt (snd p)) (firstBindings kvs)"
| "hasBigInt v = False"
  by pat_completeness auto

termination
proof (relation "measure size")
  show "wf (measure size)" by simp
next
  fix kvs :: "(string \<times> jsval) list" and p
  assume p: "p \<in> set (firstBindings kvs)"
  have sub: "set (firstBindings xs) \<subseteq> set xs" for xs :: "(string \<times> jsval) list"
    by (induction xs) auto
  have less: "q \<in> set xs \<Longrightarrow> size (snd q) < Suc (size_list (\<lambda>x. Suc (size (snd x))) xs)"
    for q and xs :: "(string \<times> jsval) list"
    by (induction xs) auto
  from p sub have "p \<in> set kvs" by blast
  from less [OF this] show "(snd p, JObj kvs) \<in> measure size"
    by (simp add: size_prod_simp)
qed

definition stringifyError :: jserror where
  "stringifyError = TypeError ''Do not know how to serialize a BigInt''"

definition jsonStringify :: "env \<Rightarrow> jsval \<Rightarrow> jserror + jsval" where
  "jsonStringify E v = (if hasBigInt v then Inl stringifyError else Inr (JStr (jsonText E v)))"

text \<open>\<open>typeof v === 'object'\<close>.\<close>

fun isObjectType :: "jsval \<Rightarrow> bool" where
  "isObjectType JNull = True"
| "isObjectType (JObj kvs) = True"
| "isObjectType (JFormat f) = True"
| "isObjectType v = False"

section \<open>Module state\<close>

text \<open>
  The module-level variables of the entry point. \<open>showName\<close> and \<open>showPid\<close> are
  \<open>undefined\<close> (\<open>None\<close>) until \<open>init\<close> assigns them; \<open>log\<close> is the single winston logger,
  \<open>undefined\<close> (\<open>None\<close>) while the log system is not initialized. \<open>logLevels\<close> is a plain
  object used as a lookup from module name to numeric level.
\<close>

record state =
  logLevel :: int
  logLevels :: "(string \<times> int) list"
  appName :: jsval
  showName :: "int option"
  showPid :: "bool option"
  log :: "winston_logger option"
  nrTransports :: nat

text \<open>The state when the module has been loaded.\<close>

definition initialState :: state where
  "initialState =
     \<lparr>logLevel = numLevelSwitch (toLowerCase DEFAULT_LOGLEVEL), logLevels = [],
      appName = JUndefined, showName = None, showPid = None, log = None, nrTransports = 0\<rparr>"

text \<open>
  The members a plain object inherits from \<open>Object.prototype\<close>: the \<open>in\<close> operator finds
  them, \<open>for ... in\<close> and \<open>Object.keys\<close> do not (they are not enumerable).
\<close>

definition objectPrototypeKeys :: "string list" where
  "objectPrototypeKeys =
     [''constructor'', ''toString'', ''toLocaleString'', ''valueOf'', ''hasOwnProperty'',
      ''isPrototypeOf'', ''propertyIsEnumerable'', ''__proto__'', ''__defineGetter__'',
      ''__defineSetter__'', ''__lookupGetter__'', ''__lookupSetter__'']"

text \<open>
  \<open>logLevels[k] = n\<close>: creates or overwrites the own property \<open>k\<close>; assigning a number
  to \<open>__proto__\<close> runs the inherited setter, which ignores it.
\<close>

definition setLevel :: "string \<Rightarrow> int \<Rightarrow> (string \<times> int) list \<Rightarrow> (string \<times> int) list" where
  "setLevel k n al = (if k = ''__proto__'' then al else AList.update k n al)"

text \<open>\<open>k in logLevels\<close>.\<close>

definition inLevels :: "string \<Rightarrow> (string \<times> int) list \<Rightarrow> bool" where
  "inLevels k al = (map_of al k \<noteq> None \<or> k \<in> set objectPrototypeKeys)"

section \<open>Initialisation\<close>

definition deinit :: "state \<Rightarrow> state" where
  "deinit st =
     st\<lparr>log := None, showName := None, showPid := None, appName := JUndefined,
        logLevels := [], logLevel := numLevelSwitch (toLowerCase DEFAULT_LOGLEVEL)\<rparr>"

definition handleFinish :: "state \<Rightarrow> state" where
  "handleFinish st = (if nrTransports st > 0 then st\<lparr>nrTransports := nrTransports st - 1\<rparr> else st)"

text \<open>
  The exported \<open>end(callback)\<close>: it ends the winston logger when there is one and
  changes no module variable. The callback, when given, is called from a timer once the
  transport counter has reached zero; it is no part of the module state.
\<close>

definition endLogger :: "state \<Rightarrow> state" where
  "endLogger st =
     (case log st of
        None \<Rightarrow> st
      | Some w \<Rightarrow> st\<lparr>log := Some (w\<lparr>ended := True\<rparr>)\<rparr>)"

definition getFormat :: "jsval \<Rightarrow> fmt" where
  "getFormat settings =
     (let result = Splat;
          result = (if truthy (getProp settings ''colorize'') then Combine [Colorize, result]
                    else result)
      in if getProp settings ''timestamp'' = JBool False then Combine [result, PrintfPlain]
         else Combine [result, Timestamp, PrintfStamped])"

definition getConsoleTransport :: "env \<Rightarrow> jsval \<Rightarrow> string \<Rightarrow> jserror + transport" where
  "getConsoleTransport E settings level =
     construct E (Console (JObj
       [(''level'', JStr level),
        (''format'', JFormat (getFormat settings))]))"

definition getFileTransport :: "env \<Rightarrow> jsval \<Rightarrow> string \<Rightarrow> jserror + transport" where
  "getFileTransport E settings level =
     (let opts = [(''level'', JStr level),
                  (''filename'', jsOr (getProp settings ''path'') (JStr DEFAULT_LOGFILE)),
                  (''format'', JFormat (getFormat settings))];
          rollingFile = getProp settings ''rollingFile'';
          opts = (if truthy rollingFile then
                    opts @
                    [(''maxsize'', jsOr (getProp rollingFile ''maxSize'') (JNum 10000000)),
                     (''maxFiles'', jsOr (getProp rollingFile ''maxFiles'') (JNum 10)),
                     (''tailable'',
                        (if getProp rollingFile ''tailable'' = JUndefined then JBool True
                         else getProp settings ''tailable''))]
                  else opts)
      in construct E (File (JObj opts)))"

text \<open>
  The loop of \<open>getLogLevels\<close> over \<open>Object.keys(settings)\<close>. The module state is returned
  as it is when the call returns or throws: \<open>Some e\<close> is the error thrown.
\<close>

fun getLogLevelsLoop :: "(string \<times> jsval) list \<Rightarrow> state \<Rightarrow> jserror option \<times> state" where
  "getLogLevelsLoop [] st = (None, st)"
| "getLogLevelsLoop ((entry, v) # rest) st =
     (case numLevel v of
        Inl e \<Rightarrow> (Some e, st)
      | Inr n \<Rightarrow> getLogLevelsLoop rest (st\<lparr>logLevels := setLevel entry n (logLevels st)\<rparr>))"

definition getLogLevels :: "jsval \<Rightarrow> state \<Rightarrow> jserror option \<times> state" where
  "getLogLevels settings st =
     (if \<not> truthy settings then (None, st) else getLogLevelsLoop (ownEntries settings) st)"

definition determineTransLevel :: "state \<Rightarrow> string" where
  "determineTransLevel st =
     strLevel (foldl (\<lambda>minLevel (key, v). if v > minLevel then v else minLevel)
                 (logLevel st) (logLevels st))"

text \<open>
  The block of \<open>evaluateSettings\<close> that fills the array \<open>transports\<close>: the console
  transport first, then the file transport; a constructor that throws ends the block.
\<close>

definition buildTransports :: "env \<Rightarrow> jsval \<Rightarrow> string \<Rightarrow> jserror + transport list" where
  "buildTransports E settings transLevel =
     (case (if truthy (getProp settings ''console'')
            then (case getConsoleTransport E (getProp settings ''console'') transLevel of
                    Inl e \<Rightarrow> Inl e
                  | Inr t \<Rightarrow> Inr [t])
            else Inr []) of
        Inl e \<Rightarrow> Inl e
      | Inr ts \<Rightarrow>
          (if truthy (getProp settings ''file'')
           then (case getFileTransport E (getProp settings ''file'') transLevel of
                   Inl e \<Rightarrow> Inl e
                 | Inr t \<Rightarrow> Inr (ts @ [t]))
           else Inr ts))"

text \<open>
  The assignments of \<open>evaluateSettings\<close> up to the default level: app name, show-name
  mode, show-pid flag, the per-module levels and the default level.
\<close>

definition readSettings :: "jsval \<Rightarrow> state \<Rightarrow> jserror option \<times> state" where
  "readSettings settings st =
     (let st1 = st\<lparr>appName := jsOr (getProp settings ''name'') (JStr DEFAULT_LOGGER_NAME),
                   showName := Some (getShowName (getProp settings ''showName'')),
                   showPid := Some (if truthy (getProp settings ''showPid'') then True else False)\<rparr>
      in case (if truthy (getProp settings ''levels'')
               then getLogLevels (getProp settings ''levels'') st1 else (None, st1)) of
           (Some e, st2) \<Rightarrow> (Some e, st2)
         | (None, st2) \<Rightarrow>
             (if truthy (getProp settings ''level'')
              then (case numLevel (getProp settings ''level'') of
                      Inl e \<Rightarrow> (Some e, st2)
                    | Inr n \<Rightarrow> (None, st2\<lparr>logLevel := n\<rparr>))
              else (None, st2)))"

text \<open>
  \<open>evaluateSettings\<close>. Every assignment to a module variable made before a throw stays
  in the returned state. \<open>winston.createLogger\<close> returns the logger over the transports
  built; registering the colours and the finish handlers changes no module variable.
\<close>

definition evaluateSettings :: "env \<Rightarrow> jsval \<Rightarrow> state \<Rightarrow> jserror option \<times> state" where
  "evaluateSettings E settings st =
     (if log st \<noteq> None then (None, st)
      else
        (case readSettings settings st of
           (Some e, st1) \<Rightarrow> (Some e, st1)
         | (None, st1) \<Rightarrow>
             (case buildTransports E settings (determineTransLevel st1) of
                Inl e \<Rightarrow> (Some e, st1)
              | Inr ts \<Rightarrow>
                  (None, st1\<lparr>nrTransports := length ts,
                             log := Some \<lparr>transports = ts, levels = CUSTOM_DEFS_levels,
                                          emitErrs = Some False, ended = False\<rparr>\<rparr>))))"

definition init :: "env \<Rightarrow> jsval \<Rightarrow> state \<Rightarrow> jserror option \<times> state" where
  "init E settings st = evaluateSettings E (jsOr settings DEFAULT_SETTINGS) st"

section \<open>Loggers\<close>

text \<open>
  A logger keeps the module name, the level found when it was created and the process id.
  The level is the default level, or what \<open>logLevels[name]\<close> holds when
  \<open>name in logLevels\<close>: a number for an own property, a member of \<open>Object.prototype\<close>
  otherwise. Such a member is a function (or, for \<open>__proto__\<close>, the prototype object);
  compared with a number it converts to NaN, and every comparison with NaN is false.
\<close>

datatype level_value = Rank int | ProtoMember string

record logger =
  logger_name :: string
  logger_level :: level_value
  logger_pid :: nat

definition createLogger :: "env \<Rightarrow> state \<Rightarrow> string \<Rightarrow> logger" where
  "createLogger E st name =
     \<lparr>logger_name = name,
      logger_level =
        (if inLevels name (logLevels st)
         then (case map_of (logLevels st) name of
                 Some n \<Rightarrow> Rank n
               | None \<Rightarrow> ProtoMember name)
         else Rank (logLevel st)),
      logger_pid = pid E\<rparr>"

text \<open>\<open>this._level >= level\<close>.\<close>

fun levelGe :: "level_value \<Rightarrow> int \<Rightarrow> bool" where
  "levelGe (Rank n) level = (n \<ge> level)"
| "levelGe (ProtoMember m) level = False"

definition notInitialized :: jserror where
  "notInitialized = Error ''Log system is not initialized''"

definition isToLog :: "state \<Rightarrow> logger \<Rightarrow> int \<Rightarrow> jserror + bool" where
  "isToLog st lg level =
     (if log st = None then Inl notInitialized else Inr (levelGe (logger_level lg) level))"

text \<open>
  The loop of \<open>_addToArgs\<close> over the arguments after the first: an argument of type
  object is replaced by its JSON text; \<open>JSON.stringify\<close> may throw.
\<close>

fun stringifyArgs :: "env \<Rightarrow> jsval list \<Rightarrow> jserror + jsval list" where
  "stringifyArgs E [] = Inr []"
| "stringifyArgs E (arg # rest) =
     (case (if isObjectType arg then jsonStringify E arg else Inr arg) of
        Inl e \<Rightarrow> Inl e
      | Inr a \<Rightarrow> (case stringifyArgs E rest of Inl e \<Rightarrow> Inl e | Inr as \<Rightarrow> Inr (a # as)))"

text \<open>
  The text \<open>addOn\<close> that \<open>_addToArgs\<close> builds. An undefined \<open>showPid\<close> is falsy, and an
  undefined \<open>showName\<close> is not greater than \<open>SN_NONE\<close>.
\<close>

definition addOn :: "env \<Rightarrow> state \<Rightarrow> logger \<Rightarrow> string" where
  "addOn E st lg =
     (let a = [];
          a = (if showPid st = Some True then a @ ''#'' @ decimal (logger_pid lg) else a)
      in case showName st of
           None \<Rightarrow> a
         | Some sn \<Rightarrow>
             (if sn > SN_NONE then
                (let a = (if showPid st = Some True then a @ ''-'' else a)
                 in if sn = SN_FULL
                    then a @ formatS E (appName st) @ ''.'' @ logger_name lg
                    else a @ logger_name lg)
              else a))"

text \<open>
  \<open>_addToArgs(arguments)\<close>: the arguments as they are passed on, or the error thrown.
  The \<open>arguments\<close> object is never falsy. With no argument at all its length is 0, and
  the element written at index 0 is not among the arguments \<open>apply\<close> passes on.
\<close>

definition addToArgs :: "env \<Rightarrow> state \<Rightarrow> logger \<Rightarrow> jsval list \<Rightarrow> jserror + jsval list" where
  "addToArgs E st lg args =
     (if showName st = Some SN_NONE \<and> showPid st \<noteq> Some True then Inr args
      else
        (case args of
           [] \<Rightarrow> Inr []
         | f # rest \<Rightarrow>
             (case stringifyArgs E rest of
                Inl e \<Rightarrow> Inl e
              | Inr rest' \<Rightarrow>
                  Inr (JStr (''['' @ addOn E st lg @ ''] '' @ formatS E f) # rest'))))"

text \<open>
  What a call of a severity method does: \<open>forwarded\<close> is \<open>Some (m, args)\<close> when the call
  reaches \<open>log.m.apply(null, args)\<close>, and \<open>thrown\<close> is the error that leaves the method,
  if any.
\<close>

record outcome =
  thrown :: "jserror option"
  forwarded :: "(string \<times> jsval list) option"

text \<open>
  The six severity methods have one body, with the numeric level and the method of the
  winston logger that receives the arguments. Nothing is caught: the error of
  \<open>_isToLog\<close>, of \<open>_addToArgs\<close> or of the winston call leaves the method.
\<close>

definition severityMethod ::
  "int \<Rightarrow> string \<Rightarrow> env \<Rightarrow> state \<Rightarrow> logger \<Rightarrow> jsval list \<Rightarrow> outcome" where
  "severityMethod level m E st lg args =
     (case isToLog st lg level of
        Inl e \<Rightarrow> \<lparr>thrown = Some e, forwarded = None\<rparr>
      | Inr b \<Rightarrow>
          (if b \<and> nrTransports st \<noteq> 0
           then (case addToArgs E st lg args of
                   Inl e \<Rightarrow> \<lparr>thrown = Some e, forwarded = None\<rparr>
                 | Inr args' \<Rightarrow>
                     \<lparr>thrown =
                        (case log st of
                           None \<Rightarrow> Some (TypeError ''Cannot read properties of undefined'')
                         | Some w \<Rightarrow> logCall E w m args'),
                      forwarded = Some (m, args')\<rparr>)
           else \<lparr>thrown = None, forwarded = None\<rparr>))"

definition fatal where "fatal = severityMethod NR_FATAL ''fatal''"
definition error where "error = severityMethod NR_ERROR ''error''"
definition warn where "warn = severityMethod NR_WARN ''warn''"
definition info where "info = severityMethod NR_INFO ''info''"
definition debug where "debug = severityMethod NR_DEBUG ''debug''"
definition trace where "trace = severityMethod NR_TRACE ''trace''"

definition isFatal :: "state \<Rightarrow> logger \<Rightarrow> jserror + bool" where
  "isFatal st lg = isToLog st lg NR_FATAL"
definition isError :: "state \<Rightarrow> logger \<Rightarrow> jserror + bool" where
  "isError st lg = isToLog st lg NR_ERROR"
definition isWarn :: "state \<Rightarrow> logger \<Rightarrow> jserror + bool" where
  "isWarn st lg = isToLog st lg NR_WARN"
definition isInfo :: "state \<Rightarrow> logger \<Rightarrow> jserror + bool" where
  "isInfo st lg = isToLog st lg NR_INFO"
definition isDebug :: "state \<Rightarrow> logger \<Rightarrow> jserror + bool" where
  "isDebug st lg = isToLog st lg NR_DEBUG"
definition isTrace :: "state \<Rightarrow> logger \<Rightarrow> jserror + bool" where
  "isTrace st lg = isToLog st lg NR_TRACE"

section \<open>The older entry point (Connection Systems logger)\<close>

text \<open>
  The older \<open>index.js\<close> shares \<open>numLevel\<close>, \<open>strLevel\<close>, \<open>getShowName\<close>,
  \<open>getLogLevels\<close> and the assignments at the start of \<open>evaluateSettings\<close> with the
  current one. It differs in the transports: the options are passed to winston directly,
  and a syslog transport is built from \<open>settings.syslog\<close>. It has no transport counter;
  the field \<open>nrTransports\<close> of the state is carried along unchanged.
\<close>


definition determineTransLevel_cs :: "state \<Rightarrow> string" where
  "determineTransLevel_cs st =
     strLevel (foldl (\<lambda>minLevel (key, v). if v \<ge> minLevel then v else minLevel)
                 (logLevel st) (logLevels st))"


definition getFileTransport_cs :: "env \<Rightarrow> jsval \<Rightarrow> string \<Rightarrow> jserror + transport" where
  "getFileTransport_cs E settings level =
     (let opts =
            [(''timestamp'', (if getProp settings ''timestamp'' = JBool False then JBool False
                              else JFun ''getUTCTimestamp'')),
             (''json'', (if getProp settings ''json'' = JUndefined then JBool False
                         else getProp settings ''json'')),
             (''colorize'', (if getProp settings ''colorize'' = JUndefined then JBool False
                             else getProp settings ''colorize'')),
             (''level'', JStr level),
             (''filename'', jsOr (getProp settings ''path'') (JStr DEFAULT_LOGFILE))];
          rollingFile = getProp settings ''rollingFile'';
          opts = (if truthy rollingFile then
                    opts @
                    [(''maxsize'', jsOr (getProp rollingFile ''maxSize'') (JNum 10000000)),
                     (''maxFiles'', jsOr (getProp rollingFile ''maxFiles'') (JNum 10)),
                     (''tailable'',
                        (if getProp rollingFile ''tailable'' = JUndefined then JBool True
                         else getProp settings ''tailable''))]
                  else opts)
      in construct E (File (JObj opts)))"





section \<open>A sample platform\<close>

text \<open>
  A concrete platform on which the model is evaluated: process id 4242, every console and
  file transport is constructed, and the syslog constructor throws for a protocol name
  other than the four the README lists; a call on a winston logger throws once the
  logger has been ended. The texts it renders and the numeric strings it knows (decimal
  digits only) are stand-ins; no result below depends on them.
\<close>

definition samplePlatform :: env where
  "samplePlatform =
     \<lparr>ctor = (\<lambda>t. case t of
                 MappedSyslog opts \<Rightarrow>
                   (case getProp opts ''protocol'' of
                      JUndefined \<Rightarrow> None
                    | JStr p \<Rightarrow>
                        (if p \<in> set [''udp4'', ''tcp4'', ''unix'', ''unix-connect''] then None
                         else Some (Error (''Invalid syslog protocol: '' @ p)))
                    | _ \<Rightarrow> Some (Error ''Invalid syslog protocol''))
               | _ \<Rightarrow> None),
      logCall = (\<lambda>w m args. if ended w then Some (Error ''write after end'') else None),
      jsonText = (\<lambda>v. ''{}''),
      inspectS = (\<lambda>v. ''[object]''),
      pid = 4242,
      hostname = ''localhost'',
      numericString = (\<lambda>s. list_all (\<lambda>c. c \<in> set ''0123456789'') s)\<rparr>"

section \<open>States the module can be in\<close>

text \<open>
  The module state changes only through the exported \<open>init\<close>, \<open>deinit\<close> and \<open>end\<close> and
  through the finish handler of a transport. A call of \<open>init\<close> that throws leaves the
  state as far as it was assigned.
\<close>

inductive reachable :: "env \<Rightarrow> state \<Rightarrow> bool" for E :: env where
  start: "reachable E initialState"
| after_init: "reachable E st \<Longrightarrow> reachable E (snd (init E settings st))"
| after_deinit: "reachable E st \<Longrightarrow> reachable E (deinit st)"
| after_finish: "reachable E st \<Longrightarrow> reachable E (handleFinish st)"
| after_end: "reachable E st \<Longrightarrow> reachable E (endLogger st)"

section \<open>Auxiliary facts\<close>

lemmas NR_defs = NR_FATAL_def NR_ERROR_def NR_WARN_def NR_INFO_def NR_DEBUG_def NR_TRACE_def
lemmas SN_defs = SN_NONE_def SN_SIMPLE_def SN_FULL_def
lemmas severity_defs = fatal_def error_def warn_def info_def debug_def trace_def
lemmas predicate_defs = isFatal_def isError_def isWarn_def isInfo_def isDebug_def isTrace_def

text \<open>The definitions to unfold when the model is run on a concrete input.\<close>

lemmas eval_defs =
  init_def evaluateSettings_def readSettings_def getLogLevels_def buildTransports_def
  getConsoleTransport_def getFileTransport_def getFormat_def construct_def
  determineTransLevel_def strLevel_def numLevelSwitch_def toLowerCase_def lowerChar_def
  getShowName_def jsOr_def DEFAULT_SETTINGS_def DEFAULT_LOGLEVEL_def DEFAULT_LOGFILE_def
  DEFAULT_LOGGER_NAME_def CUSTOM_DEFS_levels_def NR_defs SN_defs samplePlatform_def
  initialState_def setLevel_def Let_def

lemma lowerChar_idem: "lowerChar (lowerChar c) = lowerChar c"
  by (simp add: lowerChar_def)

lemma toLowerCase_idem: "toLowerCase (toLowerCase s) = toLowerCase s"
  by (simp add: toLowerCase_def lowerChar_idem)

lemma getShowName_range: "getShowName v \<in> {SN_NONE, SN_SIMPLE, SN_FULL}"
  by (cases v) (auto simp: getShowName_def Let_def)

subsection \<open>What the steps of \<open>evaluateSettings\<close> change\<close>

lemma getLogLevelsLoop_fields:
  "getLogLevelsLoop es st = (r, st') \<Longrightarrow>
     log st' = log st \<and> showName st' = showName st \<and> showPid st' = showPid st
     \<and> appName st' = appName st \<and> nrTransports st' = nrTransports st \<and> logLevel st' = logLevel st"
proof (induction es arbitrary: st)
  case Nil
  then show ?case by simp
next
  case (Cons p es)
  obtain k v where p: "p = (k, v)" by (cases p)
  show ?case
  proof (cases "numLevel v")
    case (Inl e)
    with Cons.prems p show ?thesis by simp
  next
    case (Inr n)
    with Cons.prems p
    have "getLogLevelsLoop es (st\<lparr>logLevels := setLevel k n (logLevels st)\<rparr>) = (r, st')"
      by simp
    from Cons.IH [OF this] show ?thesis by simp
  qed
qed

lemma getLogLevels_fields:
  "getLogLevels v st = (r, st') \<Longrightarrow>
     log st' = log st \<and> showName st' = showName st \<and> showPid st' = showPid st
     \<and> appName st' = appName st \<and> nrTransports st' = nrTransports st \<and> logLevel st' = logLevel st"
  by (auto simp: getLogLevels_def split: if_splits dest: getLogLevelsLoop_fields)

lemma readSettings_fields:
  assumes "readSettings settings st = (r, st')"
  shows "log st' = log st" and "nrTransports st' = nrTransports st"
    and "showName st' = Some (getShowName (getProp settings ''showName''))"
    and "showPid st' = Some (truthy (getProp settings ''showPid''))"
    and "appName st' = jsOr (getProp settings ''name'') (JStr DEFAULT_LOGGER_NAME)"
  using assms
  by (auto simp: readSettings_def Let_def split: if_splits prod.splits option.splits sum.splits
           dest!: getLogLevels_fields)

lemma evaluateSettings_ok_log:
  "evaluateSettings E settings st = (None, st') \<Longrightarrow> log st' \<noteq> None"
  by (auto simp: evaluateSettings_def split: if_splits prod.splits option.splits sum.splits)

lemma evaluateSettings_err_log:
  "evaluateSettings E settings st = (Some e, st') \<Longrightarrow> log st' = None"
  by (auto simp: evaluateSettings_def split: if_splits prod.splits option.splits sum.splits
           dest: readSettings_fields(1))

lemma evaluateSettings_noop:
  "log st \<noteq> None \<Longrightarrow> evaluateSettings E settings st = (None, st)"
  by (simp add: evaluateSettings_def)

lemma evaluateSettings_ok_cases:
  assumes "log st = None" and "evaluateSettings E s st = (None, st')"
  obtains st1 ts where "readSettings s st = (None, st1)"
    and "buildTransports E s (determineTransLevel st1) = Inr ts"
    and "st' = st1\<lparr>nrTransports := length ts,
                    log := Some \<lparr>transports = ts, levels = CUSTOM_DEFS_levels, emitErrs = Some False, ended = False\<rparr>\<rparr>"
proof -
  obtain r st1 where rs: "readSettings s st = (r, st1)" by (cases "readSettings s st")
  show ?thesis
  proof (cases r)
    case (Some e)
    with assms rs show ?thesis by (simp add: evaluateSettings_def)
  next
    case None
    show ?thesis
    proof (cases "buildTransports E s (determineTransLevel st1)")
      case (Inl e)
      with assms rs None show ?thesis by (simp add: evaluateSettings_def)
    next
      case (Inr ts)
      with assms rs None that show ?thesis by (simp add: evaluateSettings_def)
    qed
  qed
qed

subsection \<open>The transport level\<close>

lemma Max_insert_absorb:
  fixes m :: int
  assumes "finite A"
  shows "Max (insert (max m v) A) = Max (insert m (insert v A))"
proof (cases "A = {}")
  case True
  then show ?thesis by simp
next
  case False
  with assms show ?thesis by (simp add: max.assoc)
qed

lemma foldl_max_levels:
  fixes m :: int and al :: "(string \<times> int) list"
  shows "foldl (\<lambda>minLevel (key, v). if v > minLevel then v else minLevel) m al
     = Max (insert m (snd ` set al))"
proof (induction al arbitrary: m)
  case Nil
  then show ?case by simp
next
  case (Cons p al)
  obtain k v where p: "p = (k, v)" by (cases p)
  have "(if v > m then v else m) = max m v" by (simp add: max_def)
  with Cons.IH [of "max m v"] p Max_insert_absorb [of "snd ` set al" m v]
  show ?case by simp
qed

lemma foldl_max_levels_cs:
  fixes m :: int and al :: "(string \<times> int) list"
  shows "foldl (\<lambda>minLevel (key, v). if v \<ge> minLevel then v else minLevel) m al
     = Max (insert m (snd ` set al))"
proof (induction al arbitrary: m)
  case Nil
  then show ?case by simp
next
  case (Cons p al)
  obtain k v where p: "p = (k, v)" by (cases p)
  have "(if v \<ge> m then v else m) = max m v" by (simp add: max_def)
  with Cons.IH [of "max m v"] p Max_insert_absorb [of "snd ` set al" m v]
  show ?case by simp
qed

text \<open>Both entry points compute the same transport level.\<close>

lemma determineTransLevel_cs_eq: "determineTransLevel_cs st = determineTransLevel st"
  by (simp add: determineTransLevel_cs_def determineTransLevel_def foldl_max_levels
        foldl_max_levels_cs)

lemma construct_Inr: "construct E t = Inr t' \<Longrightarrow> t' = t"
  by (simp add: construct_def split: option.splits)

lemma construct_accept: "ctor E t = None \<Longrightarrow> construct E t = Inr t"
  by (simp add: construct_def)

lemma getConsoleTransport_level:
  "getConsoleTransport E settings lvl = Inr t \<Longrightarrow> transportLevel t = JStr lvl"
  by (auto simp: getConsoleTransport_def construct_def transportLevel_def split: option.splits)

lemma getFileTransport_level:
  "getFileTransport E settings lvl = Inr t \<Longrightarrow> transportLevel t = JStr lvl"
  by (auto simp: getFileTransport_def construct_def transportLevel_def Let_def split: option.splits)

lemma buildTransports_level:
  "buildTransports E settings lvl = Inr ts \<Longrightarrow> t \<in> set ts \<Longrightarrow> transportLevel t = JStr lvl"
  by (auto simp: buildTransports_def split: if_splits sum.splits
           dest: getConsoleTransport_level getFileTransport_level)

subsection \<open>An initialized state has its display settings\<close>

lemma init_display_settings:
  assumes "log st = None" and "init E settings st = (r, st')" and "log st' \<noteq> None"
  shows "\<exists>sn sp. showName st' = Some sn \<and> sn \<in> {SN_NONE, SN_SIMPLE, SN_FULL} \<and> showPid st' = Some sp"
proof -
  let ?s = "jsOr settings DEFAULT_SETTINGS"
  from assms(2) have e: "evaluateSettings E ?s st = (r, st')" by (simp add: init_def)
  have "r = None"
  proof (cases r)
    case (Some e')
    with e assms(3) show ?thesis by (auto dest: evaluateSettings_err_log)
  qed simp
  with e assms(1) obtain st1 ts where
    rs: "readSettings ?s st = (None, st1)" and
    s: "st' = st1\<lparr>nrTransports := length ts,
                   log := Some \<lparr>transports = ts, levels = CUSTOM_DEFS_levels, emitErrs = Some False, ended = False\<rparr>\<rparr>"
    by (auto elim: evaluateSettings_ok_cases)
  from readSettings_fields(3,4) [OF rs] s getShowName_range show ?thesis by simp
qed

lemma reachable_display_settings:
  "reachable E st \<Longrightarrow> log st \<noteq> None \<Longrightarrow>
     \<exists>sn sp. showName st = Some sn \<and> sn \<in> {SN_NONE, SN_SIMPLE, SN_FULL} \<and> showPid st = Some sp"
proof (induction rule: reachable.induct)
  case start
  then show ?case by (simp add: initialState_def)
next
  case (after_init st settings)
  show ?case
  proof (cases "log st = None")
    case True
    then show ?thesis
      using init_display_settings [of st E settings "fst (init E settings st)" "snd (init E settings st)"]
        after_init.prems by simp
  next
    case False
    then have "init E settings st = (None, st)"
      by (simp add: init_def evaluateSettings_noop)
    with after_init False show ?thesis by simp
  qed
next
  case (after_deinit st)
  then show ?case by (simp add: deinit_def)
next
  case (after_finish st)
  then show ?case by (simp add: handleFinish_def split: if_splits)
next
  case (after_end st)
  then show ?case by (cases "log st") (simp_all add: endLogger_def)
qed

subsection \<open>Serialising the arguments\<close>

lemma stringifyArgs_error:
  "stringifyArgs E rest = Inl e \<Longrightarrow>
     e = stringifyError \<and> (\<exists>a \<in> set rest. isObjectType a \<and> hasBigInt a)"
proof (induction rest)
  case Nil
  then show ?case by simp
next
  case (Cons a rest)
  then show ?case
    by (auto simp: jsonStringify_def split: if_splits sum.splits)
qed

lemma stringifyArgs_total:
  "\<forall>a \<in> set rest. \<not> hasBigInt a \<Longrightarrow> \<exists>rest'. stringifyArgs E rest = Inr rest'"
proof (induction rest)
  case Nil
  then show ?case by simp
next
  case (Cons a rest)
  then show ?case
    by (auto simp: jsonStringify_def split: sum.splits)
qed

lemma stringifyArgs_length:
  "stringifyArgs E rest = Inr rest' \<Longrightarrow> length rest' = length rest"
proof (induction rest arbitrary: rest')
  case Nil
  then show ?case by simp
next
  case (Cons a rest)
  then show ?case
    by (auto simp: jsonStringify_def split: if_splits sum.splits)
qed

lemma addToArgs_error:
  "addToArgs E st lg args = Inl e \<Longrightarrow>
     e = stringifyError \<and> (\<exists>a \<in> set (tl args). isObjectType a \<and> hasBigInt a)"
  by (cases args) (auto simp: addToArgs_def split: if_splits sum.splits dest: stringifyArgs_error)

lemma addToArgs_total:
  "\<forall>a \<in> set (tl args). \<not> hasBigInt a \<Longrightarrow> \<exists>args'. addToArgs E st lg args = Inr args'"
proof (cases args)
  case Nil
  then show ?thesis by (simp add: addToArgs_def)
next
  case (Cons f rest)
  assume "\<forall>a \<in> set (tl args). \<not> hasBigInt a"
  with Cons obtain rest' where "stringifyArgs E rest = Inr rest'"
    using stringifyArgs_total [of rest E] by auto
  with Cons show ?thesis by (simp add: addToArgs_def)
qed

lemma severityMethod_uninitialized:
  "log st = None \<Longrightarrow>
     severityMethod level m E st lg args = \<lparr>thrown = Some notInitialized, forwarded = None\<rparr>"
  by (simp add: severityMethod_def isToLog_def)

lemma severityMethod_error:
  assumes "log st = Some w" and "thrown (severityMethod level m E st lg args) = Some e"
  shows "(e = stringifyError \<and> (\<exists>a \<in> set (tl args). isObjectType a \<and> hasBigInt a)
            \<and> forwarded (severityMethod level m E st lg args) = None)
         \<or> (\<exists>args'. forwarded (severityMethod level m E st lg args) = Some (m, args')
                    \<and> logCall E w m args' = Some e)"
proof (cases "levelGe (logger_level lg) level \<and> nrTransports st \<noteq> 0")
  case False
  with assms show ?thesis by (auto simp: severityMethod_def isToLog_def)
next
  case True
  show ?thesis
  proof (cases "addToArgs E st lg args")
    case (Inl e')
    with True assms have "e' = e" by (simp add: severityMethod_def isToLog_def)
    with Inl True assms addToArgs_error [of E st lg args e] show ?thesis
      by (simp add: severityMethod_def isToLog_def)
  next
    case (Inr args')
    with True assms show ?thesis by (simp add: severityMethod_def isToLog_def)
  qed
qed

lemma severityMethod_returns:
  assumes "log st = Some w" and "\<forall>a \<in> set (tl args). \<not> hasBigInt a"
    and "\<forall>args'. logCall E w m args' = None"
  shows "thrown (severityMethod level m E st lg args) = None"
proof -
  from assms(2) obtain args' where "addToArgs E st lg args = Inr args'"
    using addToArgs_total by blast
  with assms(1,3) show ?thesis by (simp add: severityMethod_def isToLog_def)
qed

lemma severityMethod_forwarded:
  "forwarded (severityMethod level m E st lg args) = Some (m', args') \<Longrightarrow>
     m' = m \<and> log st \<noteq> None \<and> addToArgs E st lg args = Inr args'"
  by (auto simp: severityMethod_def isToLog_def split: if_splits sum.splits)

lemma severity_methods:
  "meth \<in> {fatal, error, warn, info, debug, trace} \<Longrightarrow>
     \<exists>level m. meth = severityMethod level m"
  by (auto simp: severity_defs)

subsection \<open>Where the errors of \<open>init\<close> come from\<close>



lemma construct_error: "construct E t = Inl e \<Longrightarrow> ctor E t = Some e"
  by (simp add: construct_def split: option.splits)


lemma getConsoleTransport_error:
  "getConsoleTransport E settings lvl = Inl e \<Longrightarrow> \<exists>t. ctor E t = Some e"
  unfolding getConsoleTransport_def by (blast dest: construct_error)

lemma getFileTransport_error:
  "getFileTransport E settings lvl = Inl e \<Longrightarrow> \<exists>t. ctor E t = Some e"
  unfolding getFileTransport_def Let_def by (blast dest: construct_error)










section \<open>The claims\<close>

subsection \<open>C1: the errors of the logger methods\<close>

text \<open>
  Claim C1 says that the not-initialized error is the only error a logger method ever
  raises, and that none of the twelve methods throws once \<open>init\<close> has built the logger.
  An accepted call with a prefix configured serialises every extra argument of type
  object with \<open>JSON.stringify\<close>, and the TypeError of \<open>JSON.stringify\<close> leaves the
  method: on the sample platform, after \<open>init({showName: true, console: {}})\<close>, the call
  \<open>info('x', {n: 1n})\<close> of logger \<open>aap\<close> throws it.
\<close>

theorem info_throws_after_init:
  "fst (init samplePlatform (JObj [(''showName'', JBool True), (''console'', JObj [])]) initialState) = None
   \<and> log (snd (init samplePlatform (JObj [(''showName'', JBool True), (''console'', JObj [])])
              initialState)) \<noteq> None
   \<and> thrown (info samplePlatform
        (snd (init samplePlatform (JObj [(''showName'', JBool True), (''console'', JObj [])]) initialState))
        (createLogger samplePlatform
          (snd (init samplePlatform (JObj [(''showName'', JBool True), (''console'', JObj [])]) initialState))
          ''aap'')
        [JStr ''x'', JObj [(''n'', JBigInt 1)]])
      = Some (TypeError ''Do not know how to serialize a BigInt'')
   \<and> TypeError ''Do not know how to serialize a BigInt'' \<noteq> notInitialized"
  by (simp add: eval_defs info_def severityMethod_def isToLog_def createLogger_def inLevels_def
        objectPrototypeKeys_def addToArgs_def jsonStringify_def stringifyError_def
        notInitialized_def)

text \<open>
  Claim C1, amended. The log system is not initialized when the module has been loaded
  and after \<open>deinit\<close>. While it is not initialized, each of the six severity methods and
  each of the six predicates of every logger throws the not-initialized error, whatever
  the arguments, and forwards nothing. Once it is initialized, none of the six
  predicates throws, and an error that leaves a severity method is one of two: the
  TypeError of \<open>JSON.stringify\<close>, thrown before anything is forwarded, when one of the
  arguments after the first is an object that \<open>JSON.stringify\<close> cannot serialise; or
  the error that the method of the winston logger throws on the forwarded call (as it
  does once \<open>end\<close> has ended the logger). When all arguments after the first serialise
  and the winston logger does not throw, the method returns.
\<close>

theorem logger_method_errors:
  "log initialState = None \<and> log (deinit st0) = None
   \<and> (log st = None \<longrightarrow>
        (\<forall>meth \<in> {fatal, error, warn, info, debug, trace}.
           meth E st lg args = \<lparr>thrown = Some notInitialized, forwarded = None\<rparr>)
        \<and> isFatal st lg = Inl notInitialized \<and> isError st lg = Inl notInitialized
        \<and> isWarn st lg = Inl notInitialized \<and> isInfo st lg = Inl notInitialized
        \<and> isDebug st lg = Inl notInitialized \<and> isTrace st lg = Inl notInitialized)
   \<and> (log st = Some w \<longrightarrow>
        (\<exists>b. isFatal st lg = Inr b) \<and> (\<exists>b. isError st lg = Inr b) \<and> (\<exists>b. isWarn st lg = Inr b)
        \<and> (\<exists>b. isInfo st lg = Inr b) \<and> (\<exists>b. isDebug st lg = Inr b) \<and> (\<exists>b. isTrace st lg = Inr b)
        \<and> (\<forall>meth \<in> {fatal, error, warn, info, debug, trace}.
              (\<forall>e. thrown (meth E st lg args) = Some e \<longrightarrow>
                 (e = stringifyError \<and> (\<exists>a \<in> set (tl args). isObjectType a \<and> hasBigInt a)
                    \<and> forwarded (meth E st lg args) = None)
                 \<or> (\<exists>m args'. forwarded (meth E st lg args) = Some (m, args')
                        \<and> logCall E w m args' = Some e))
              \<and> ((\<forall>a \<in> set (tl args). \<not> hasBigInt a) \<and> (\<forall>m args'. logCall E w m args' = None)
                   \<longrightarrow> thrown (meth E st lg args) = None)))"
proof (intro conjI impI ballI allI)
  show "log initialState = None" by (simp add: initialState_def)
  show "log (deinit st0) = None" by (simp add: deinit_def)
next
  fix meth :: "env \<Rightarrow> state \<Rightarrow> logger \<Rightarrow> jsval list \<Rightarrow> outcome"
  assume n: "log st = None" and m: "meth \<in> {fatal, error, warn, info, debug, trace}"
  from m obtain level name where "meth = severityMethod level name"
    using severity_methods by blast
  with n show "meth E st lg args = \<lparr>thrown = Some notInitialized, forwarded = None\<rparr>"
    by (simp add: severityMethod_uninitialized)
next
  assume n: "log st = None"
  from n show "isFatal st lg = Inl notInitialized" by (simp add: isFatal_def isToLog_def)
  from n show "isError st lg = Inl notInitialized" by (simp add: isError_def isToLog_def)
  from n show "isWarn st lg = Inl notInitialized" by (simp add: isWarn_def isToLog_def)
  from n show "isInfo st lg = Inl notInitialized" by (simp add: isInfo_def isToLog_def)
  from n show "isDebug st lg = Inl notInitialized" by (simp add: isDebug_def isToLog_def)
  from n show "isTrace st lg = Inl notInitialized" by (simp add: isTrace_def isToLog_def)
next
  assume i: "log st = Some w"
  from i show "\<exists>b. isFatal st lg = Inr b" by (simp add: isFatal_def isToLog_def)
  from i show "\<exists>b. isError st lg = Inr b" by (simp add: isError_def isToLog_def)
  from i show "\<exists>b. isWarn st lg = Inr b" by (simp add: isWarn_def isToLog_def)
  from i show "\<exists>b. isInfo st lg = Inr b" by (simp add: isInfo_def isToLog_def)
  from i show "\<exists>b. isDebug st lg = Inr b" by (simp add: isDebug_def isToLog_def)
  from i show "\<exists>b. isTrace st lg = Inr b" by (simp add: isTrace_def isToLog_def)
next
  fix meth :: "env \<Rightarrow> state \<Rightarrow> logger \<Rightarrow> jsval list \<Rightarrow> outcome"
  fix e
  assume i: "log st = Some w" and m: "meth \<in> {fatal, error, warn, info, debug, trace}"
    and f: "thrown (meth E st lg args) = Some e"
  from m obtain level name where meth: "meth = severityMethod level name"
    using severity_methods by blast
  with f have "thrown (severityMethod level name E st lg args) = Some e" by simp
  from severityMethod_error [OF i this] meth
  show "(e = stringifyError \<and> (\<exists>a \<in> set (tl args). isObjectType a \<and> hasBigInt a)
           \<and> forwarded (meth E st lg args) = None)
        \<or> (\<exists>m args'. forwarded (meth E st lg args) = Some (m, args')
               \<and> logCall E w m args' = Some e)"
    by blast
next
  fix meth :: "env \<Rightarrow> state \<Rightarrow> logger \<Rightarrow> jsval list \<Rightarrow> outcome"
  assume i: "log st = Some w" and m: "meth \<in> {fatal, error, warn, info, debug, trace}"
    and a: "(\<forall>a \<in> set (tl args). \<not> hasBigInt a) \<and> (\<forall>m args'. logCall E w m args' = None)"
  from m obtain level name where "meth = severityMethod level name"
    using severity_methods by blast
  with i a show "thrown (meth E st lg args) = None"
    by (simp add: severityMethod_returns)
qed

theorem logger_method_errors_witness:
  "isInfo initialState (createLogger samplePlatform initialState ''aap'') = Inl notInitialized
   \<and> info samplePlatform initialState (createLogger samplePlatform initialState ''aap'') [JStr ''x'']
       = \<lparr>thrown = Some notInitialized, forwarded = None\<rparr>
   \<and> (\<exists>b. isInfo
             (snd (init samplePlatform (JObj [(''showName'', JBool True), (''console'', JObj [])])
                    initialState))
             (createLogger samplePlatform initialState ''aap'') = Inr b)
   \<and> thrown (info samplePlatform
             (snd (init samplePlatform (JObj [(''showName'', JBool True), (''console'', JObj [])])
                    initialState))
             (createLogger samplePlatform initialState ''aap'')
             [JStr ''x'', JObj [(''n'', JNum 1)]]) = None
   \<and> info samplePlatform
         (endLogger
           (snd (init samplePlatform (JObj [(''showName'', JBool True), (''console'', JObj [])])
                  initialState)))
         (createLogger samplePlatform initialState ''aap'')
         [JStr ''x'']
       = \<lparr>thrown = Some (Error ''write after end''),
          forwarded = Some (''info'', [JStr ''[aap] x''])\<rparr>"
proof -
  let ?st = "snd (init samplePlatform (JObj [(''showName'', JBool True), (''console'', JObj [])])
                    initialState)"
  let ?lg = "createLogger samplePlatform initialState ''aap''"
  let ?args = "[JStr ''x'', JObj [(''n'', JNum 1)]]"
  let ?w = "\<lparr>transports = [Console (JObj [(''level'', JStr ''info''),
                 (''format'', JFormat (Combine [Splat, Timestamp, PrintfStamped]))])],
             levels = CUSTOM_DEFS_levels, emitErrs = Some False, ended = False\<rparr>"
  have n: "log initialState = None" by (simp add: initialState_def)
  have i: "log ?st = Some ?w" by (simp add: eval_defs)
  have a: "(\<forall>a \<in> set (tl ?args). \<not> hasBigInt a)
           \<and> (\<forall>m args'. logCall samplePlatform ?w m args' = None)"
    by (simp add: samplePlatform_def)
  have m: "info \<in> {fatal, error, warn, info, debug, trace}" by simp
  note u = logger_method_errors [THEN conjunct2, THEN conjunct2, THEN conjunct1, THEN mp, OF n]
  note 1 = u [THEN conjunct2, THEN conjunct2, THEN conjunct2, THEN conjunct2, THEN conjunct1,
      of "createLogger samplePlatform initialState ''aap''"]
  note 2 = u [THEN conjunct1, THEN bspec, OF m,
      of samplePlatform "createLogger samplePlatform initialState ''aap''" "[JStr ''x'']"]
  note p = logger_method_errors [THEN conjunct2, THEN conjunct2, THEN conjunct2, THEN mp, OF i]
  note 3 = p [THEN conjunct2, THEN conjunct2, THEN conjunct2, THEN conjunct1, of ?lg]
  note 4 = p [THEN conjunct2, THEN conjunct2, THEN conjunct2, THEN conjunct2, THEN conjunct2,
      THEN conjunct2, THEN bspec, OF m, THEN conjunct2, THEN mp, OF a, of ?lg]
  have st: "nrTransports ?st = 1" "showName ?st = Some 1" "showPid ?st = Some False"
    by (simp_all add: eval_defs)
  have lg: "logger_level ?lg = Rank 30" "logger_name ?lg = ''aap''"
    by (simp_all add: createLogger_def inLevels_def objectPrototypeKeys_def eval_defs)
  have 5: "info samplePlatform (endLogger ?st) ?lg [JStr ''x'']
       = \<lparr>thrown = Some (Error ''write after end''),
          forwarded = Some (''info'', [JStr ''[aap] x''])\<rparr>"
    using i st lg
    by (simp add: endLogger_def info_def severityMethod_def isToLog_def NR_defs SN_defs addToArgs_def
          addOn_def formatS_def samplePlatform_def)
  show ?thesis
    by (intro conjI) (rule 1 2 3 4 5)+
qed

subsection \<open>C2: the level a logger is bound to\<close>

text \<open>
  For a module name that is not a member of \<open>Object.prototype\<close>, the constructor binds the
  logger to the level stored for the name, and to the default level when none is stored;
  such a logger accepts a call exactly when its level is at least the level of the call.
\<close>

lemma createLogger_level:
  assumes "name \<notin> set objectPrototypeKeys"
  shows "logger_level (createLogger E st name) =
           Rank (case map_of (logLevels st) name of Some n \<Rightarrow> n | None \<Rightarrow> logLevel st)"
  using assms by (simp add: createLogger_def inLevels_def split: option.splits)

lemma createLogger_accepts:
  assumes "name \<notin> set objectPrototypeKeys" and "log st \<noteq> None"
  shows "isToLog st (createLogger E st name) r =
           Inr ((case map_of (logLevels st) name of Some n \<Rightarrow> n | None \<Rightarrow> logLevel st) \<ge> r)"
  using assms by (simp add: isToLog_def createLogger_level)

text \<open>
  Claim C2 says that a logger for a module without an override is bound to the default
  level. The constructor tests \<open>name in logLevels\<close>, and \<open>logLevels\<close> is a plain object:
  the test also holds for the names of the members of \<open>Object.prototype\<close>, and the logger
  is then bound to that member, which is not a number. With global level \<open>info\<close> and the
  override \<open>{aap: "error"}\<close>, logger \<open>aap\<close> accepts fatal and error only and logger
  \<open>noot\<close> accepts fatal to info, as the claim says; logger \<open>constructor\<close>, which has no
  override either, accepts nothing.
\<close>

theorem logger_named_constructor_accepts_nothing:
  "fst (init samplePlatform
          (JObj [(''level'', JStr ''info''), (''levels'', JObj [(''aap'', JStr ''error'')])])
          initialState) = None
   \<and> map (\<lambda>p. p (snd (init samplePlatform
                         (JObj [(''level'', JStr ''info''), (''levels'', JObj [(''aap'', JStr ''error'')])])
                         initialState))
                (createLogger samplePlatform
                   (snd (init samplePlatform
                         (JObj [(''level'', JStr ''info''), (''levels'', JObj [(''aap'', JStr ''error'')])])
                         initialState)) ''aap''))
       [isFatal, isError, isWarn, isInfo, isDebug, isTrace]
     = [Inr True, Inr True, Inr False, Inr False, Inr False, Inr False]
   \<and> map (\<lambda>p. p (snd (init samplePlatform
                         (JObj [(''level'', JStr ''info''), (''levels'', JObj [(''aap'', JStr ''error'')])])
                         initialState))
                (createLogger samplePlatform
                   (snd (init samplePlatform
                         (JObj [(''level'', JStr ''info''), (''levels'', JObj [(''aap'', JStr ''error'')])])
                         initialState)) ''noot''))
       [isFatal, isError, isWarn, isInfo, isDebug, isTrace]
     = [Inr True, Inr True, Inr True, Inr True, Inr False, Inr False]
   \<and> map (\<lambda>p. p (snd (init samplePlatform
                         (JObj [(''level'', JStr ''info''), (''levels'', JObj [(''aap'', JStr ''error'')])])
                         initialState))
                (createLogger samplePlatform
                   (snd (init samplePlatform
                         (JObj [(''level'', JStr ''info''), (''levels'', JObj [(''aap'', JStr ''error'')])])
                         initialState)) ''constructor''))
       [isFatal, isError, isWarn, isInfo, isDebug, isTrace]
     = [Inr False, Inr False, Inr False, Inr False, Inr False, Inr False]"
proof -
  let ?i = "init samplePlatform
          (JObj [(''level'', JStr ''info''), (''levels'', JObj [(''aap'', JStr ''error'')])])
          initialState"
  have f: "fst ?i = None" by (simp add: eval_defs)
  have l: "log (snd ?i) \<noteq> None" "logLevel (snd ?i) = 30" "logLevels (snd ?i) = [(''aap'', 10)]"
    by (simp_all add: eval_defs)
  from f l show ?thesis
    by (simp add: predicate_defs isToLog_def createLogger_def inLevels_def
          objectPrototypeKeys_def NR_defs)
qed

subsection \<open>C3: a second \<open>init\<close> changes nothing\<close>

text \<open>
  Claim C3. When \<open>init\<close> has returned normally the logger is installed; and as long as
  it is installed (\<open>deinit\<close> not called; a finish event of a transport leaves it
  installed), every \<open>init\<close>, with whatever settings, returns normally and leaves the
  whole module state as it is: app name, show-name mode, show-pid flag, default level,
  per-module levels, and the logger with its transports and their level.
\<close>

theorem init_after_init_noop:
  "(init E settings1 st0 = (None, st1) \<longrightarrow> log st1 \<noteq> None)
   \<and> (log st \<noteq> None \<longrightarrow>
        init E' settings2 st = (None, st) \<and> log (handleFinish st) = log st)"
proof (intro conjI impI)
  assume "init E settings1 st0 = (None, st1)"
  then show "log st1 \<noteq> None"
    unfolding init_def by (rule evaluateSettings_ok_log)
next
  assume "log st \<noteq> None"
  then show "init E' settings2 st = (None, st)"
    unfolding init_def by (rule evaluateSettings_noop)
next
  show "log (handleFinish st) = log st"
    by (simp add: handleFinish_def)
qed

theorem init_after_init_noop_witness:
  "fst (init samplePlatform (JObj [(''level'', JStr ''debug''), (''console'', JObj [])]) initialState) = None
   \<and> log (snd (init samplePlatform (JObj [(''level'', JStr ''debug''), (''console'', JObj [])])
              initialState)) \<noteq> None
   \<and> init samplePlatform (JObj [(''level'', JStr ''fatal''), (''showPid'', JBool True)])
        (snd (init samplePlatform (JObj [(''level'', JStr ''debug''), (''console'', JObj [])]) initialState))
      = (None, snd (init samplePlatform (JObj [(''level'', JStr ''debug''), (''console'', JObj [])]) initialState))"
proof -
  let ?i = "init samplePlatform (JObj [(''level'', JStr ''debug''), (''console'', JObj [])]) initialState"
  have f: "fst ?i = None" by (simp add: eval_defs)
  then have i: "?i = (None, snd ?i)" by (metis prod.collapse)
  note 1 = init_after_init_noop [THEN conjunct1, THEN mp, OF i]
  note 2 = init_after_init_noop [THEN conjunct2, THEN mp, OF 1, THEN conjunct1]
  from f 1 2 show ?thesis by simp
qed

subsection \<open>C4: the transport level is the least severe level in use\<close>

text \<open>
  Claim C4. For every default level and every per-module level lookup,
  \<open>determineTransLevel\<close> is the name of the largest number among the default level and
  the values of the lookup; and after an \<open>init\<close> that builds the logger, the \<open>level\<close>
  option of every transport of the logger is that name, for the default level and the
  lookup that \<open>init\<close> has stored.
\<close>

theorem transport_level_is_max:
  "determineTransLevel st = strLevel (Max (insert (logLevel st) (snd ` set (logLevels st))))
   \<and> (log st = None \<longrightarrow> init E settings st = (None, st') \<longrightarrow>
        (\<exists>w. log st' = Some w \<and>
           (\<forall>t \<in> set (transports w).
              transportLevel t = JStr (strLevel (Max (insert (logLevel st') (snd ` set (logLevels st'))))))))"
proof -
  have d: "\<And>s. determineTransLevel s = strLevel (Max (insert (logLevel s) (snd ` set (logLevels s))))"
    by (simp add: determineTransLevel_def foldl_max_levels)
  have "\<exists>w. log st' = Some w \<and>
           (\<forall>t \<in> set (transports w). transportLevel t = JStr (determineTransLevel st'))"
    if n: "log st = None" and i: "init E settings st = (None, st')"
  proof -
    let ?s = "jsOr settings DEFAULT_SETTINGS"
    from i have "evaluateSettings E ?s st = (None, st')" by (simp add: init_def)
    with n obtain st1 ts where
      b: "buildTransports E ?s (determineTransLevel st1) = Inr ts" and
      s: "st' = st1\<lparr>nrTransports := length ts,
                     log := Some \<lparr>transports = ts, levels = CUSTOM_DEFS_levels, emitErrs = Some False, ended = False\<rparr>\<rparr>"
      by (rule evaluateSettings_ok_cases)
    from s have "determineTransLevel st' = determineTransLevel st1"
      by (simp add: determineTransLevel_def)
    with b s show ?thesis
      by (auto dest: buildTransports_level)
  qed
  with d show ?thesis by auto
qed

theorem transport_level_is_max_witness:
  "log initialState = None
   \<and> init samplePlatform
        (JObj [(''level'', JStr ''warn''), (''levels'', JObj [(''aap'', JStr ''debug''), (''noot'', JStr ''error'')]),
               (''console'', JObj []), (''file'', JObj [])]) initialState
      = (None, snd (init samplePlatform
        (JObj [(''level'', JStr ''warn''), (''levels'', JObj [(''aap'', JStr ''debug''), (''noot'', JStr ''error'')]),
               (''console'', JObj []), (''file'', JObj [])]) initialState))
   \<and> (\<exists>w. log (snd (init samplePlatform
        (JObj [(''level'', JStr ''warn''), (''levels'', JObj [(''aap'', JStr ''debug''), (''noot'', JStr ''error'')]),
               (''console'', JObj []), (''file'', JObj [])]) initialState)) = Some w
        \<and> length (transports w) = 2
        \<and> (\<forall>t \<in> set (transports w). transportLevel t = JStr ''debug''))"
proof -
  let ?s = "JObj [(''level'', JStr ''warn''), (''levels'', JObj [(''aap'', JStr ''debug''), (''noot'', JStr ''error'')]),
               (''console'', JObj []), (''file'', JObj [])]"
  let ?i = "init samplePlatform ?s initialState"
  have n: "log initialState = None" by (simp add: initialState_def)
  have f: "fst ?i = None" by (simp add: eval_defs)
  then have i: "?i = (None, snd ?i)" by (metis prod.collapse)
  have l: "logLevel (snd ?i) = 20" "logLevels (snd ?i) = [(''aap'', 40), (''noot'', 10)]"
    by (simp_all add: eval_defs)
  have len: "\<And>w. log (snd ?i) = Some w \<Longrightarrow> length (transports w) = 2"
    by (simp add: eval_defs)
  from transport_level_is_max [of "initialState" samplePlatform ?s "snd ?i"] n i l len
  show ?thesis by (auto simp: strLevel_def NR_defs)
qed

subsection \<open>C5: the prefix of the first argument\<close>

text \<open>
  Claim C5. Take any state the module can reach, any logger, and any call of one of the
  six severity methods with first argument \<open>f\<close> that is accepted and forwarded to
  winston (whether the winston call then returns or throws). Then the show-name mode \<open>sn\<close> and the show-pid flag \<open>sp\<close> are set, and the
  first argument forwarded is \<open>f\<close> itself when \<open>sn\<close> is None and \<open>sp\<close> is false, and
  otherwise \<open>[addon] f\<close>, where the addon is: \<open>#pid\<close> when only the pid is shown; the
  module name (Simple) or app name, dot, module name (Full) when only the name is shown;
  and \<open>#pid-\<close> followed by that name part when both are shown. (\<open>%s\<close> inserts a string
  as it is.) No argument is added or dropped.
\<close>

theorem prefix_of_accepted_call:
  assumes "reachable E st"
    and "meth \<in> {fatal, error, warn, info, debug, trace}"
    and "forwarded (meth E st lg (f # rest)) = Some (m, args')"
  shows "\<exists>sn sp. showName st = Some sn \<and> showPid st = Some sp
           \<and> sn \<in> {SN_NONE, SN_SIMPLE, SN_FULL}
           \<and> length args' = length (f # rest)
           \<and> hd args' =
               (if sn = SN_NONE \<and> \<not> sp then f
                else JStr (''['' @
                  (if sn = SN_NONE then ''#'' @ decimal (logger_pid lg)
                   else (if sp then ''#'' @ decimal (logger_pid lg) @ ''-'' else [])
                        @ (if sn = SN_FULL then formatS E (appName st) @ ''.'' @ logger_name lg
                           else logger_name lg))
                  @ ''] '' @ formatS E f))
           \<and> formatS E (JStr s) = s"
proof -
  from assms(2) obtain level name where meth: "meth = severityMethod level name"
    using severity_methods by blast
  with assms(3) have fw: "forwarded (severityMethod level name E st lg (f # rest)) = Some (m, args')"
    by simp
  from severityMethod_forwarded [OF fw] have l: "log st \<noteq> None"
    and a: "addToArgs E st lg (f # rest) = Inr args'"
    by simp_all
  with assms(1) obtain sn sp where
    d: "showName st = Some sn" "sn \<in> {SN_NONE, SN_SIMPLE, SN_FULL}" "showPid st = Some sp"
    using reachable_display_settings by blast
  have len: "length args' = length (f # rest)"
    using a by (auto simp: addToArgs_def split: if_splits sum.splits dest: stringifyArgs_length)
  have hd: "hd args' =
               (if sn = SN_NONE \<and> \<not> sp then f
                else JStr (''['' @
                  (if sn = SN_NONE then ''#'' @ decimal (logger_pid lg)
                   else (if sp then ''#'' @ decimal (logger_pid lg) @ ''-'' else [])
                        @ (if sn = SN_FULL then formatS E (appName st) @ ''.'' @ logger_name lg
                           else logger_name lg))
                  @ ''] '' @ formatS E f))"
    using a d by (auto simp: addToArgs_def addOn_def SN_defs split: if_splits sum.splits)
  have "formatS E (JStr s) = s" by (simp add: formatS_def)
  with d len hd show ?thesis by blast
qed

theorem prefix_of_accepted_call_witness:
  "reachable samplePlatform
     (snd (init samplePlatform
             (JObj [(''name'', JStr ''mylog''), (''showName'', JStr ''full''),
                    (''showPid'', JBool True), (''console'', JObj [])]) initialState))
   \<and> info samplePlatform
        (snd (init samplePlatform
             (JObj [(''name'', JStr ''mylog''), (''showName'', JStr ''full''),
                    (''showPid'', JBool True), (''console'', JObj [])]) initialState))
        (createLogger samplePlatform initialState ''mymodule'')
        [JStr ''info'']
      = \<lparr>thrown = None, forwarded = Some (''info'', [JStr ''[#4242-mylog.mymodule] info''])\<rparr>
   \<and> showName (snd (init samplePlatform
             (JObj [(''name'', JStr ''mylog''), (''showName'', JStr ''full''),
                    (''showPid'', JBool True), (''console'', JObj [])]) initialState)) = Some SN_FULL
   \<and> showPid (snd (init samplePlatform
             (JObj [(''name'', JStr ''mylog''), (''showName'', JStr ''full''),
                    (''showPid'', JBool True), (''console'', JObj [])]) initialState)) = Some True"
proof -
  let ?s = "JObj [(''name'', JStr ''mylog''), (''showName'', JStr ''full''),
                    (''showPid'', JBool True), (''console'', JObj [])]"
  let ?st = "snd (init samplePlatform ?s initialState)"
  let ?lg = "createLogger samplePlatform initialState ''mymodule''"
  have r: "reachable samplePlatform ?st"
    by (rule reachable.after_init) (rule reachable.start)
  have m: "info \<in> {fatal, error, warn, info, debug, trace}" by simp
  have st: "\<exists>w. log ?st = Some w \<and> \<not> ended w" "nrTransports ?st = 1"
    "appName ?st = JStr ''mylog''"
    by (simp_all add: eval_defs)
  have lg: "logger_level ?lg = Rank 30" "logger_pid ?lg = 4242" "logger_name ?lg = ''mymodule''"
    by (simp_all add: createLogger_def inLevels_def objectPrototypeKeys_def eval_defs)
  have d: "decimal 4242 = ''4242''" by (simp add: decimal.simps digit_def)
  from st(1) obtain w where w: "log ?st = Some w" "\<not> ended w" by blast
  from w(2) have lc: "logCall samplePlatform w m args = None" for m args
    by (simp add: samplePlatform_def)
  have "\<exists>args'. info samplePlatform ?st ?lg [JStr ''info'']
                 = \<lparr>thrown = None, forwarded = Some (''info'', args')\<rparr>"
    using w(1) st(2) lg lc
    by (simp add: info_def severityMethod_def isToLog_def NR_defs addToArgs_def)
  then obtain args' where
    o: "info samplePlatform ?st ?lg ([JStr ''info''])
          = \<lparr>thrown = None, forwarded = Some (''info'', args')\<rparr>"
    by blast
  then have c: "forwarded (info samplePlatform ?st ?lg ([JStr ''info''])) = Some (''info'', args')"
    by simp
  from prefix_of_accepted_call [OF r m c] obtain sn sp where
    p: "showName ?st = Some sn" "showPid ?st = Some sp" "length args' = length [JStr ''info'']"
      "hd args' =
               (if sn = SN_NONE \<and> \<not> sp then JStr ''info''
                else JStr (''['' @
                  (if sn = SN_NONE then ''#'' @ decimal (logger_pid ?lg)
                   else (if sp then ''#'' @ decimal (logger_pid ?lg) @ ''-'' else [])
                        @ (if sn = SN_FULL then formatS samplePlatform (appName ?st) @ ''.'' @ logger_name ?lg
                           else logger_name ?lg))
                  @ ''] '' @ formatS samplePlatform (JStr ''info'')))"
    by blast
  have sn: "showName ?st = Some SN_FULL" and sp: "showPid ?st = Some True"
    by (simp_all add: eval_defs)
  from p(3) obtain a where args': "args' = [a]"
    by (cases args') auto
  from p sn sp st(3) lg d args' have "a = JStr ''[#4242-mylog.mymodule] info''"
    by (simp add: SN_defs formatS_def)
  with o args' r sn sp show ?thesis by simp
qed

subsection \<open>C6: \<open>numLevel\<close> on strings and on a missing name\<close>

text \<open>
  Claim C6 says that \<open>numLevel\<close> never raises and returns the trace level (50) for every
  input that is not a known level name, a missing name included. The call
  \<open>value.toLowerCase()\<close> throws a TypeError when \<open>value\<close> is \<open>undefined\<close>:
\<close>

theorem numLevel_undefined_throws:
  "numLevel JUndefined = Inl (TypeError ''Cannot read properties of undefined (reading toLowerCase)'')"
  by simp

text \<open>
  Claim C6, amended. On every string \<open>numLevel\<close> returns one of the six declared numbers
  and never raises; the name is compared after lower-casing, so the result is that of
  the lower-cased name; each of the names fatal, error, warn, info and debug gives its
  number, and every other string gives 50, the trace level.
\<close>

theorem numLevel_total_on_strings:
  "(\<exists>r \<in> {0, 10, 20, 30, 40, 50}. numLevel (JStr s) = Inr r)
   \<and> numLevel (JStr s) = numLevel (JStr (toLowerCase s))
   \<and> (toLowerCase s = ''fatal'' \<longrightarrow> numLevel (JStr s) = Inr 0)
   \<and> (toLowerCase s = ''error'' \<longrightarrow> numLevel (JStr s) = Inr 10)
   \<and> (toLowerCase s = ''warn'' \<longrightarrow> numLevel (JStr s) = Inr 20)
   \<and> (toLowerCase s = ''info'' \<longrightarrow> numLevel (JStr s) = Inr 30)
   \<and> (toLowerCase s = ''debug'' \<longrightarrow> numLevel (JStr s) = Inr 40)
   \<and> (toLowerCase s \<notin> {''fatal'', ''error'', ''warn'', ''info'', ''debug''} \<longrightarrow>
        numLevel (JStr s) = Inr 50)"
  by (simp add: numLevelSwitch_def NR_defs toLowerCase_idem)

theorem numLevel_total_on_strings_witness:
  "numLevel (JStr ''FATAL'') = Inr 0 \<and> numLevel (JStr ''Error'') = Inr 10
   \<and> numLevel (JStr ''wArN'') = Inr 20 \<and> numLevel (JStr ''InFo'') = Inr 30
   \<and> numLevel (JStr ''debuG'') = Inr 40 \<and> numLevel (JStr ''verbose'') = Inr 50"
proof -
  have l: "toLowerCase ''FATAL'' = ''fatal''" "toLowerCase ''Error'' = ''error''"
    "toLowerCase ''wArN'' = ''warn''" "toLowerCase ''InFo'' = ''info''"
    "toLowerCase ''debuG'' = ''debug''" "toLowerCase ''verbose'' = ''verbose''"
    by (simp_all add: toLowerCase_def lowerChar_def)
  have "numLevel (JStr ''FATAL'') = Inr 0"
    using numLevel_total_on_strings [of "''FATAL''"] l(1) by blast
  moreover have "numLevel (JStr ''Error'') = Inr 10"
    using numLevel_total_on_strings [of "''Error''"] l(2) by blast
  moreover have "numLevel (JStr ''wArN'') = Inr 20"
    using numLevel_total_on_strings [of "''wArN''"] l(3) by blast
  moreover have "numLevel (JStr ''InFo'') = Inr 30"
    using numLevel_total_on_strings [of "''InFo''"] l(4) by blast
  moreover have "numLevel (JStr ''debuG'') = Inr 40"
    using numLevel_total_on_strings [of "''debuG''"] l(5) by blast
  moreover have "numLevel (JStr ''verbose'') = Inr 50"
  proof -
    have "toLowerCase ''verbose'' \<notin> {''fatal'', ''error'', ''warn'', ''info'', ''debug''}"
      by (simp add: l(6))
    with numLevel_total_on_strings [of "''verbose''"] show ?thesis by blast
  qed
  ultimately show ?thesis by blast
qed

subsection \<open>C7: the show-name setting\<close>

text \<open>
  Claim C7 says that \<open>getShowName\<close> returns None for every falsy value. The empty string
  is falsy, but it is a string, and the \<open>switch\<close> over strings ends in Simple:
\<close>

theorem getShowName_empty_string_simple:
  "\<not> truthy (JStr []) \<and> getShowName (JStr []) = SN_SIMPLE \<and> SN_SIMPLE \<noteq> SN_NONE"
  by (simp add: getShowName_def toLowerCase_def SN_defs)

text \<open>
  Claim C7, amended. For a string, compared after lower-casing: \<open>full\<close> gives Full,
  \<open>none\<close> and \<open>false\<close> give None, and every other string, the empty one included, gives
  Simple. For a value that is not a string: Simple when it is truthy, None when it is
  falsy or absent.
\<close>

theorem getShowName_cases:
  "(toLowerCase s = ''full'' \<longrightarrow> getShowName (JStr s) = SN_FULL)
   \<and> (toLowerCase s \<in> {''none'', ''false''} \<longrightarrow> getShowName (JStr s) = SN_NONE)
   \<and> (toLowerCase s \<notin> {''full'', ''none'', ''false''} \<longrightarrow> getShowName (JStr s) = SN_SIMPLE)
   \<and> ((\<forall>s. v \<noteq> JStr s) \<longrightarrow> getShowName v = (if truthy v then SN_SIMPLE else SN_NONE))"
  by (cases v) (auto simp: getShowName_def)

theorem getShowName_cases_witness:
  "getShowName (JStr ''Full'') = SN_FULL \<and> getShowName (JStr ''NONE'') = SN_NONE
   \<and> getShowName (JStr ''False'') = SN_NONE \<and> getShowName (JStr ''simple'') = SN_SIMPLE
   \<and> getShowName (JBool True) = SN_SIMPLE \<and> getShowName JUndefined = SN_NONE
   \<and> getShowName (JNum 0) = SN_NONE"
  using getShowName_cases [of "''Full''" "JBool True"] getShowName_cases [of "''NONE''" JUndefined]
    getShowName_cases [of "''False''" "JNum 0"] getShowName_cases [of "''simple''" JNull]
  by (simp add: toLowerCase_def lowerChar_def)

subsection \<open>C8: a destination the backend does not accept\<close>




subsection \<open>C9: names and numbers of the levels\<close>

text \<open>
  Claim C9. For each of the six declared numbers 0, 10, 20, 30, 40 and 50, the number of
  the name of the number is the number itself; and \<open>strLevel\<close> returns \<open>trace\<close> for every
  number outside the six.
\<close>

theorem numLevel_strLevel_roundtrip:
  "(r \<in> {0, 10, 20, 30, 40, 50} \<longrightarrow> numLevel (JStr (strLevel r)) = Inr r)
   \<and> (r \<notin> {0, 10, 20, 30, 40, 50} \<longrightarrow> strLevel r = ''trace'')"
  by (auto simp: strLevel_def numLevelSwitch_def NR_defs toLowerCase_def lowerChar_def)

theorem numLevel_strLevel_roundtrip_witness:
  "numLevel (JStr (strLevel 30)) = Inr 30 \<and> strLevel 7 = ''trace'' \<and> strLevel (- 1) = ''trace''"
  using numLevel_strLevel_roundtrip [of 30] numLevel_strLevel_roundtrip [of 7]
    numLevel_strLevel_roundtrip [of "- 1"]
  by simp

subsection \<open>C10: the \<open>tailable\<close> option of a rolling file\<close>

text \<open>
  Claim C10. When the file settings have a \<open>rollingFile\<close> section, the \<open>tailable\<close> option
  of the file transport is \<open>true\<close> if \<open>rollingFile.tailable\<close> is undefined, and otherwise
  it is the \<open>tailable\<close> property of the file settings themselves (undefined when they
  have none), not the value given in \<open>rollingFile\<close>. This holds in the current and in the
  older entry point, and the transport is built whenever the backend constructs it.
\<close>

theorem file_tailable_option:
  assumes "truthy (getProp settings ''rollingFile'')"
  shows "(\<forall>t. getFileTransport E settings level = Inr t \<longrightarrow>
            getProp (transportOpts t) ''tailable'' =
              (if getProp (getProp settings ''rollingFile'') ''tailable'' = JUndefined then JBool True
               else getProp settings ''tailable''))
       \<and> (\<forall>t. getFileTransport_cs E settings level = Inr t \<longrightarrow>
            getProp (transportOpts t) ''tailable'' =
              (if getProp (getProp settings ''rollingFile'') ''tailable'' = JUndefined then JBool True
               else getProp settings ''tailable''))
       \<and> ((\<forall>t. ctor E t = None) \<longrightarrow>
            (\<exists>t t'. getFileTransport E settings level = Inr t
                  \<and> getFileTransport_cs E settings level = Inr t'))"
proof (intro conjI allI impI)
  fix t assume "getFileTransport E settings level = Inr t"
  with assms show "getProp (transportOpts t) ''tailable'' =
      (if getProp (getProp settings ''rollingFile'') ''tailable'' = JUndefined then JBool True
       else getProp settings ''tailable'')"
    by (auto simp: getFileTransport_def Let_def dest!: construct_Inr)
next
  fix t assume "getFileTransport_cs E settings level = Inr t"
  with assms show "getProp (transportOpts t) ''tailable'' =
      (if getProp (getProp settings ''rollingFile'') ''tailable'' = JUndefined then JBool True
       else getProp settings ''tailable'')"
    by (auto simp: getFileTransport_cs_def Let_def dest!: construct_Inr)
next
  assume "\<forall>t. ctor E t = None"
  then show "\<exists>t t'. getFileTransport E settings level = Inr t
                  \<and> getFileTransport_cs E settings level = Inr t'"
    by (simp add: getFileTransport_def getFileTransport_cs_def Let_def construct_accept)
qed

theorem file_tailable_option_witness:
  "truthy (getProp (JObj [(''rollingFile'', JObj [(''tailable'', JBool False)])]) ''rollingFile'')
   \<and> (\<exists>t. getFileTransport samplePlatform
              (JObj [(''rollingFile'', JObj [(''tailable'', JBool False)])]) ''info'' = Inr t
          \<and> getProp (transportOpts t) ''tailable'' = JUndefined)
   \<and> (\<exists>t. getFileTransport_cs samplePlatform
              (JObj [(''rollingFile'', JObj [(''tailable'', JBool False)])]) ''info'' = Inr t
          \<and> getProp (transportOpts t) ''tailable'' = JUndefined)"
proof -
  let ?s = "JObj [(''rollingFile'', JObj [(''tailable'', JBool False)])]"
  have h: "truthy (getProp ?s ''rollingFile'')" by simp
  have a: "getFileTransport samplePlatform ?s ''info'' \<noteq> Inl e" for e
    by (simp add: getFileTransport_def construct_def samplePlatform_def Let_def)
  have b: "getFileTransport_cs samplePlatform ?s ''info'' \<noteq> Inl e" for e
    by (simp add: getFileTransport_cs_def construct_def samplePlatform_def Let_def)
  from a obtain t where t: "getFileTransport samplePlatform ?s ''info'' = Inr t"
    by (cases "getFileTransport samplePlatform ?s ''info''") auto
  from b obtain t' where t': "getFileTransport_cs samplePlatform ?s ''info'' = Inr t'"
    by (cases "getFileTransport_cs samplePlatform ?s ''info''") auto
  from file_tailable_option [OF h, of samplePlatform "''info''"] t t' h
  show ?thesis by simp
qed

end
